theory Spec2Isabelle
  imports Complex_Main "HOL-Library.Sublist"
begin

section \<open>Data model of the production store\<close>

text \<open>
  The program is one Streamlit script (\<^verbatim>\<open>main.py\<close>) over an SQLite file. Every user
  interaction runs the script from the top: it opens a connection, creates and seeds
  the tables, runs the code of the selected page and closes the connection.

  Modelling decisions that hold for the whole development:
  \<^item> Python \<^verbatim>\<open>float\<close> values and SQLite \<^verbatim>\<open>REAL\<close> columns are idealised as
    \<^typ>\<open>real\<close>: rounding of IEEE arithmetic is not modelled.
  \<^item> Python \<^verbatim>\<open>int\<close> values and SQLite \<^verbatim>\<open>INTEGER\<close> columns are \<^typ>\<open>int\<close>.
  \<^item> A table is the list of its rows in insertion order; a key constraint is a check
    made by the statement that inserts.
  \<^item> An \<^verbatim>\<open>AUTOINCREMENT\<close> key is drawn from a counter kept beside the table.
  \<^item> The \<^verbatim>\<open>due_date\<close> column is kept as the result of
    \<^verbatim>\<open>pd.to_datetime(..., errors='coerce')\<close> on its text: a calendar date, or
    \<open>None\<close> for text that does not parse (\<^verbatim>\<open>NaT\<close>).
\<close>

type_synonym date = "nat \<times> nat \<times> nat"

datatype py_exception =
    ZeroDivisionError
  | ValueError
  | OverflowError
  | IntegrityError
  | OperationalError
  | StreamlitValueBelowMinError
  | StreamlitValueAboveMaxError

record order_row =
  o_id :: nat
  o_order_number :: string
  o_customer :: string
  o_product :: string
  o_due_date :: "date option"
  o_quantity :: int
  o_cutting :: int
  o_sewing :: int
  o_finishing :: int
  o_packaging :: int

text \<open>The twelve values of the cost form, in the order of the \<^verbatim>\<open>SELECT\<close> of lines 371-376.\<close>

record cost_inputs =
  fabric_issued :: real
  fabric_rate :: real
  accessories_rate :: real
  printing_rate :: real
  overhead_per_unit :: real
  labor_cutting_rate :: real
  labor_sewing_rate :: real
  labor_finishing_rate :: real
  dyeing_rate :: real
  embroidery_rate :: real
  shipping_cost :: real
  misc_cost :: real

text \<open>
  A row of \<^verbatim>\<open>fabric_cost_1\<close>; a row of \<^verbatim>\<open>fabric_cost_history\<close> is such a row
  paired with its surrogate \<^verbatim>\<open>id\<close>.
\<close>

record cost_row =
  f_order_number :: string
  f_item_type :: string
  f_units :: int
  f_inputs :: cost_inputs
  f_last_updated :: string

record standard_row =
  s_product_type :: string
  s_size :: string
  s_style :: string
  s_fabric_per_unit :: real

record accessory_row =
  a_id :: nat
  a_order_number :: string
  a_accessory_type :: string
  a_quantity :: real
  a_rate :: real
  a_last_updated :: string

record db =
  orders :: "order_row list"
  orders_seq :: nat
  fabric_cost_1 :: "cost_row list"
  fabric_standards :: "standard_row list"
  fabric_cost_history :: "(nat \<times> cost_row) list"
  history_seq :: nat
  accessories_details :: "accessory_row list"
  accessories_seq :: nat

section \<open>Cost computation (lines 409-421)\<close>

record cost_breakdown =
  fabric_cost :: real
  accessories_cost :: real
  printing_cost :: real
  overhead_cost :: real
  labor_cutting_cost :: real
  labor_sewing_cost :: real
  labor_finishing_cost :: real
  dyeing_cost :: real
  embroidery_cost :: real
  total_cost :: real
  cost_per_unit :: real

text \<open>
  Python's \<^verbatim>\<open>/\<close> raises on a zero divisor, where HOL's division returns 0; the
  raise is a value of the model.
\<close>

definition py_truediv :: "real \<Rightarrow> int \<Rightarrow> py_exception + real" where
  "py_truediv a b = (if b = 0 then Inl ZeroDivisionError else Inr (a / real_of_int b))"

text \<open>
  \<^verbatim>\<open>cost_per_unit = total_cost / units if units else 0\<close>: the division is only
  evaluated when \<^verbatim>\<open>units\<close> is truthy.
\<close>

definition compute :: "int \<Rightarrow> cost_inputs \<Rightarrow> py_exception + cost_breakdown" where
  "compute units i =
     (let fabric_cost' = fabric_issued i * fabric_rate i;
          accessories_cost' = real_of_int units * accessories_rate i;
          printing_cost' = real_of_int units * printing_rate i;
          overhead_cost' = real_of_int units * overhead_per_unit i;
          labor_cutting_cost' = real_of_int units * labor_cutting_rate i;
          labor_sewing_cost' = real_of_int units * labor_sewing_rate i;
          labor_finishing_cost' = real_of_int units * labor_finishing_rate i;
          dyeing_cost' = real_of_int units * dyeing_rate i;
          embroidery_cost' = real_of_int units * embroidery_rate i;
          total_cost' = fabric_cost' + accessories_cost' + printing_cost' + overhead_cost' +
                        labor_cutting_cost' + labor_sewing_cost' + labor_finishing_cost' +
                        dyeing_cost' + embroidery_cost' + shipping_cost i + misc_cost i
      in case (if units \<noteq> 0 then py_truediv total_cost' units else Inr 0) of
           Inl e \<Rightarrow> Inl e
         | Inr cost_per_unit' \<Rightarrow>
             Inr \<lparr>fabric_cost = fabric_cost', accessories_cost = accessories_cost',
                  printing_cost = printing_cost', overhead_cost = overhead_cost',
                  labor_cutting_cost = labor_cutting_cost',
                  labor_sewing_cost = labor_sewing_cost',
                  labor_finishing_cost = labor_finishing_cost',
                  dyeing_cost = dyeing_cost', embroidery_cost = embroidery_cost',
                  total_cost = total_cost', cost_per_unit = cost_per_unit'\<rparr>)"

text \<open>The inputs of the worked example of the specification.\<close>

definition example_inputs :: cost_inputs where
  "example_inputs =
     \<lparr>fabric_issued = 15, fabric_rate = 5, accessories_rate = 2, printing_rate = 1,
      overhead_per_unit = 3, labor_cutting_rate = 4, labor_sewing_rate = 4,
      labor_finishing_rate = 4, dyeing_rate = 0, embroidery_rate = 0,
      shipping_cost = 50, misc_cost = 10\<rparr>"

section \<open>The connection\<close>

text \<open>
  Python's \<^verbatim>\<open>sqlite3\<close> module, with the transaction control the script leaves at
  its default: \<^verbatim>\<open>c.execute\<close> of an \<^verbatim>\<open>INSERT\<close> or \<^verbatim>\<open>UPDATE\<close> opens a
  transaction when none is open and changes what this connection reads from then on;
  \<^verbatim>\<open>conn.commit()\<close> makes these changes the stored database; the end of the run
  (\<^verbatim>\<open>conn.close()\<close>, line 645) discards what was not committed. A statement that
  raises changes nothing. \<open>committed\<close> is the stored database, \<open>working\<close> is what the
  statements of this connection read and write.
\<close>

record conn =
  committed :: db
  working :: db

definition connect :: "db \<Rightarrow> conn" where
  "connect d = \<lparr>committed = d, working = d\<rparr>"

definition commit :: "conn \<Rightarrow> conn" where
  "commit c = c\<lparr>committed := working c\<rparr>"

definition close :: "conn \<Rightarrow> db" where
  "close c = committed c"

definition execute :: "(db \<Rightarrow> db) \<Rightarrow> conn \<Rightarrow> conn" where
  "execute stmt c = c\<lparr>working := stmt (working c)\<rparr>"

text \<open>
  Where the script writes one statement and commits inside a \<^verbatim>\<open>try\<close>, the store
  can fail at the statement or at the commit; the handler reports the error and the
  script goes on with the same connection.
\<close>

datatype db_fault = NoFault | ExecuteFails | CommitFails

definition write_and_commit :: "db_fault \<Rightarrow> (db \<Rightarrow> db) \<Rightarrow> conn \<Rightarrow> py_exception option \<times> conn" where
  "write_and_commit f stmt c =
     (case f of
        ExecuteFails \<Rightarrow> (Some OperationalError, c)
      | CommitFails \<Rightarrow> (Some OperationalError, execute stmt c)
      | NoFault \<Rightarrow> (None, commit (execute stmt c)))"

subsection \<open>Start of every run (lines 38-136)\<close>

definition default_standards :: "standard_row list" where
  "default_standards =
     [\<lparr>s_product_type = ''top'', s_size = ''standard'', s_style = ''regular'', s_fabric_per_unit = 1.5\<rparr>,
      \<lparr>s_product_type = ''trouser'', s_size = ''standard'', s_style = ''regular'', s_fabric_per_unit = 1.0\<rparr>,
      \<lparr>s_product_type = ''suit'', s_size = ''standard'', s_style = ''regular'', s_fabric_per_unit = 2.5\<rparr>]"

definition seed_standards :: "db \<Rightarrow> db" where
  "seed_standards d =
     (if length (fabric_standards d) = 0 then d\<lparr>fabric_standards := default_standards\<rparr> else d)"

definition startup :: "db \<Rightarrow> db" where
  "startup d = close (commit (execute seed_standards (connect d)))"

text \<open>The store before the first run: every table empty.\<close>

definition empty_db :: db where
  "empty_db = \<lparr>orders = [], orders_seq = 0, fabric_cost_1 = [], fabric_standards = [],
     fabric_cost_history = [], history_seq = 0, accessories_details = [], accessories_seq = 0\<rparr>"

section \<open>Widgets\<close>

text \<open>
  \<^verbatim>\<open>st.number_input(label, min_value, max_value, value)\<close> on integers. The call
  raises when \<^verbatim>\<open>value\<close> lies outside the bounds. Otherwise it returns what the
  user entered, \<open>entry\<close>, when that lies within the bounds; an entry outside them is
  not accepted by the widget, which keeps \<^verbatim>\<open>value\<close>, as it does when the user
  enters nothing.
\<close>

definition in_bounds :: "int option \<Rightarrow> int option \<Rightarrow> int \<Rightarrow> bool" where
  "in_bounds min_value max_value v =
     ((case min_value of None \<Rightarrow> True | Some lo \<Rightarrow> lo \<le> v) \<and>
      (case max_value of None \<Rightarrow> True | Some hi \<Rightarrow> v \<le> hi))"

definition number_input :: "int option \<Rightarrow> int option \<Rightarrow> int \<Rightarrow> int option \<Rightarrow> py_exception + int" where
  "number_input min_value max_value val entry =
     (if (case min_value of None \<Rightarrow> False | Some lo \<Rightarrow> val < lo)
        then Inl StreamlitValueBelowMinError
      else if (case max_value of None \<Rightarrow> False | Some hi \<Rightarrow> hi < val)
        then Inl StreamlitValueAboveMaxError
      else case entry of
             None \<Rightarrow> Inr val
           | Some v \<Rightarrow> if in_bounds min_value max_value v then Inr v else Inr val)"

section \<open>Data Entry page (lines 621-642)\<close>

text \<open>
  The \<^verbatim>\<open>INSERT INTO orders\<close> of lines 633-636 against the table of lines 41-54:
  \<^verbatim>\<open>order_number\<close> is \<^verbatim>\<open>UNIQUE\<close>, the four stage counters take their default 0,
  and no constraint is declared on \<^verbatim>\<open>quantity\<close>.
\<close>

definition new_order :: "nat \<Rightarrow> string \<Rightarrow> string \<Rightarrow> string \<Rightarrow> date \<Rightarrow> int \<Rightarrow> order_row" where
  "new_order oid order_number customer product due_date quantity =
     \<lparr>o_id = oid, o_order_number = order_number, o_customer = customer, o_product = product,
      o_due_date = Some due_date, o_quantity = quantity,
      o_cutting = 0, o_sewing = 0, o_finishing = 0, o_packaging = 0\<rparr>"

definition insert_order :: "string \<Rightarrow> string \<Rightarrow> string \<Rightarrow> date \<Rightarrow> int \<Rightarrow> db \<Rightarrow> py_exception + db" where
  "insert_order order_number customer product due_date quantity d =
     (if order_number \<in> set (map o_order_number (orders d)) then Inl IntegrityError
      else Inr (d\<lparr>orders := orders d @
                    [new_order (Suc (orders_seq d)) order_number customer product due_date quantity],
                  orders_seq := Suc (orders_seq d)\<rparr>))"

text \<open>
  The submitted form: \<^verbatim>\<open>quantity = st.number_input("Total Quantity", min_value=1, step=1)\<close>
  (no \<^verbatim>\<open>value\<close>, so the widget starts at its minimum), then the insert and the commit
  inside \<^verbatim>\<open>try\<close>. The result is the exception the handlers report, if any, and the
  store after the run.
\<close>

definition data_entry ::
  "db_fault \<Rightarrow> string \<Rightarrow> string \<Rightarrow> string \<Rightarrow> date \<Rightarrow> int option \<Rightarrow> db \<Rightarrow> py_exception option \<times> db" where
  "data_entry f order_number customer product due_date entry d =
     (case number_input (Some 1) None 1 entry of
        Inl e \<Rightarrow> (Some e, d)
      | Inr quantity \<Rightarrow>
          (case insert_order order_number customer product due_date quantity d of
             Inl e \<Rightarrow> (Some e, d)
           | Inr d' \<Rightarrow>
               (case write_and_commit f (\<lambda>_. d') (connect d) of (e, c) \<Rightarrow> (e, close c))))"

section \<open>Orders page (lines 264-294)\<close>

definition update_orders :: "nat \<Rightarrow> int \<Rightarrow> int \<Rightarrow> int \<Rightarrow> int \<Rightarrow> db \<Rightarrow> db" where
  "update_orders oid cutting sewing finishing packaging d =
     d\<lparr>orders := map (\<lambda>r. if o_id r = oid
                            then r\<lparr>o_cutting := cutting, o_sewing := sewing,
                                   o_finishing := finishing, o_packaging := packaging\<rparr>
                            else r) (orders d)\<rparr>"

type_synonym stage_entries = "int option \<times> int option \<times> int option \<times> int option"

text \<open>
  The four widgets of one row (lines 279-282): bounds 0 and the row's quantity, start
  value the stored counter.
\<close>

definition stage_widgets :: "order_row \<Rightarrow> stage_entries \<Rightarrow> py_exception + (int \<times> int \<times> int \<times> int)" where
  "stage_widgets row es =
     (case es of (e1, e2, e3, e4) \<Rightarrow>
      case number_input (Some 0) (Some (o_quantity row)) (o_cutting row) e1 of
        Inl x \<Rightarrow> Inl x
      | Inr cutting \<Rightarrow>
      case number_input (Some 0) (Some (o_quantity row)) (o_sewing row) e2 of
        Inl x \<Rightarrow> Inl x
      | Inr sewing \<Rightarrow>
      case number_input (Some 0) (Some (o_quantity row)) (o_finishing row) e3 of
        Inl x \<Rightarrow> Inl x
      | Inr finishing \<Rightarrow>
      case number_input (Some 0) (Some (o_quantity row)) (o_packaging row) e4 of
        Inl x \<Rightarrow> Inl x
      | Inr packaging \<Rightarrow> Inr (cutting, sewing, finishing, packaging))"

text \<open>
  The loop over the rows read at the top of the page. \<open>entries\<close> gives what the user
  entered in the widgets of each order, \<open>clicked\<close> the order whose Update button was
  pressed, if any. A widget that raises ends the run; a successful update ends it too
  (\<^verbatim>\<open>st.rerun()\<close>); after a store error the loop goes on.
\<close>

fun orders_loop ::
  "db_fault \<Rightarrow> (nat \<Rightarrow> stage_entries) \<Rightarrow> nat option \<Rightarrow> order_row list \<Rightarrow> conn \<Rightarrow> py_exception option \<times> conn" where
  "orders_loop f entries clicked [] c = (None, c)"
| "orders_loop f entries clicked (row # rows) c =
     (case stage_widgets row (entries (o_id row)) of
        Inl x \<Rightarrow> (Some x, c)
      | Inr (cutting, sewing, finishing, packaging) \<Rightarrow>
          if clicked = Some (o_id row) then
            (case write_and_commit f (update_orders (o_id row) cutting sewing finishing packaging) c of
               (None, c') \<Rightarrow> (None, c')
             | (Some x, c') \<Rightarrow> orders_loop f entries clicked rows c')
          else orders_loop f entries clicked rows c)"

definition orders_page :: "db_fault \<Rightarrow> (nat \<Rightarrow> stage_entries) \<Rightarrow> nat option \<Rightarrow> db \<Rightarrow> py_exception option \<times> db" where
  "orders_page f entries clicked d =
     (case orders_loop f entries clicked (orders d) (connect d) of (e, c) \<Rightarrow> (e, close c))"

text \<open>The range the specification requires of the four counters of an order.\<close>

definition stage_ok :: "order_row \<Rightarrow> bool" where
  "stage_ok r =
     (0 \<le> o_cutting r \<and> o_cutting r \<le> o_quantity r \<and>
      0 \<le> o_sewing r \<and> o_sewing r \<le> o_quantity r \<and>
      0 \<le> o_finishing r \<and> o_finishing r \<le> o_quantity r \<and>
      0 \<le> o_packaging r \<and> o_packaging r \<le> o_quantity r)"

section \<open>Cost Sheet page (lines 331-567)\<close>

subsection \<open>Fabric requirement (lines 354-364 and 384-385)\<close>

definition FABRIC_STANDARD :: "string \<rightharpoonup> real" where
  "FABRIC_STANDARD = [''top'' \<mapsto> 1.5, ''trouser'' \<mapsto> 1.0, ''suit'' \<mapsto> 2.5]"

text \<open>\<^verbatim>\<open>dict.get(key, default)\<close>.\<close>

definition dict_get :: "('k \<rightharpoonup> 'v) \<Rightarrow> 'k \<Rightarrow> 'v \<Rightarrow> 'v" where
  "dict_get m k dflt = (case m k of None \<Rightarrow> dflt | Some v \<Rightarrow> v)"

text \<open>
  \<^verbatim>\<open>SELECT fabric_per_unit FROM fabric_standards WHERE product_type = ? AND size = ?\<close>
  followed by \<^verbatim>\<open>fetchone()\<close>: the first matching row, if any.
\<close>

definition fetch_standard :: "db \<Rightarrow> string \<Rightarrow> string \<Rightarrow> real option" where
  "fetch_standard d product_type size' =
     map_option s_fabric_per_unit
       (find (\<lambda>r. s_product_type r = product_type \<and> s_size r = size') (fabric_standards d))"

text \<open>
  \<open>query_fails\<close> is the \<^verbatim>\<open>except\<close> branch of line 362, taken when the query raises.
\<close>

definition fabric_required_std :: "bool \<Rightarrow> db \<Rightarrow> string \<Rightarrow> int \<Rightarrow> real" where
  "fabric_required_std query_fails d item_type units =
     (if query_fails then dict_get FABRIC_STANDARD item_type 0 * real_of_int units
      else case fetch_standard d item_type ''standard'' of
             Some standard_fabric \<Rightarrow> standard_fabric * real_of_int units
           | None \<Rightarrow> dict_get FABRIC_STANDARD item_type 0 * real_of_int units)"

text \<open>
  Line 385: \<^verbatim>\<open>fabric_required_override * units if fabric_required_override else
  fabric_required_std\<close>; a float is truthy when it is not zero.
\<close>

definition fabric_required :: "real \<Rightarrow> int \<Rightarrow> real \<Rightarrow> real" where
  "fabric_required fabric_required_override units std =
     (if fabric_required_override \<noteq> 0 then fabric_required_override * real_of_int units else std)"

text \<open>
  The per-unit value the specification calls \<open>Resolve(product_type)\<close>: the factor of
  \<^verbatim>\<open>units\<close> in \<^const>\<open>fabric_required_std\<close>, written as the specification words it.
\<close>

definition resolve :: "db \<Rightarrow> string \<Rightarrow> real" where
  "resolve d product_type =
     (case fetch_standard d product_type ''standard'' of
        Some per_unit \<Rightarrow> per_unit
      | None \<Rightarrow> (case FABRIC_STANDARD product_type of Some per_unit \<Rightarrow> per_unit | None \<Rightarrow> 0))"

subsection \<open>Stored cost inputs (lines 370-381)\<close>

definition load :: "db \<Rightarrow> string \<Rightarrow> cost_inputs option" where
  "load d order_number =
     map_option f_inputs (find (\<lambda>r. f_order_number r = order_number) (fabric_cost_1 d))"

definition zero_inputs :: cost_inputs where
  "zero_inputs =
     \<lparr>fabric_issued = 0, fabric_rate = 0, accessories_rate = 0, printing_rate = 0,
      overhead_per_unit = 0, labor_cutting_rate = 0, labor_sewing_rate = 0,
      labor_finishing_rate = 0, dyeing_rate = 0, embroidery_rate = 0,
      shipping_cost = 0, misc_cost = 0\<rparr>"

definition defaults :: "db \<Rightarrow> string \<Rightarrow> cost_inputs" where
  "defaults d order_number =
     (case load d order_number of Some existing_cost \<Rightarrow> existing_cost | None \<Rightarrow> zero_inputs)"

subsection \<open>Validation (lines 402-406)\<close>



subsection \<open>Saving (lines 454-514)\<close>

definition insert_history :: "cost_row \<Rightarrow> db \<Rightarrow> db" where
  "insert_history row d =
     d\<lparr>fabric_cost_history := fabric_cost_history d @ [(Suc (history_seq d), row)],
       history_seq := Suc (history_seq d)\<rparr>"

text \<open>
  \<^verbatim>\<open>INSERT INTO fabric_cost_1 ... ON CONFLICT(order_number) DO UPDATE SET\<close> with
  every other column taken from the new row: a row with this order number becomes the
  new row, and without one the new row is appended.
\<close>

definition upsert_cost :: "cost_row \<Rightarrow> db \<Rightarrow> db" where
  "upsert_cost row d =
     (if f_order_number row \<in> set (map f_order_number (fabric_cost_1 d))
      then d\<lparr>fabric_cost_1 :=
               map (\<lambda>r. if f_order_number r = f_order_number row then row else r) (fabric_cost_1 d)\<rparr>
      else d\<lparr>fabric_cost_1 := fabric_cost_1 d @ [row]\<rparr>)"

text \<open>
  The block has two statements and one commit; the store can fail at each of the
  three. Both handlers (lines 511-514) only report the error: there is no rollback, and
  the rest of the page goes on reading through the same connection.
\<close>

datatype save_fault = SaveOk | HistoryInsertFails | UpsertFails | SaveCommitFails

definition save_block :: "save_fault \<Rightarrow> cost_row \<Rightarrow> conn \<Rightarrow> py_exception option \<times> conn" where
  "save_block f row c =
     (if f = HistoryInsertFails then (Some OperationalError, c)
      else let c1 = execute (insert_history row) c in
        if f = UpsertFails then (Some OperationalError, c1)
        else let c2 = execute (upsert_cost row) c1 in
          if f = SaveCommitFails then (Some OperationalError, c2)
          else (None, commit c2))"

definition cost_record :: "string \<Rightarrow> string \<Rightarrow> int \<Rightarrow> cost_inputs \<Rightarrow> string \<Rightarrow> cost_row" where
  "cost_record order_number item_type units i last_updated =
     \<lparr>f_order_number = order_number, f_item_type = item_type, f_units = units,
      f_inputs = i, f_last_updated = last_updated\<rparr>"

text \<open>
  One run of the page with the cost form submitted: the save block, then the end of the
  run. \<open>now\<close> is \<^verbatim>\<open>datetime.now().isoformat()\<close>.
\<close>

definition save ::
  "save_fault \<Rightarrow> string \<Rightarrow> string \<Rightarrow> int \<Rightarrow> cost_inputs \<Rightarrow> string \<Rightarrow> db \<Rightarrow> py_exception option \<times> db" where
  "save f order_number item_type units i now d =
     (case save_block f (cost_record order_number item_type units i now) (connect d) of
        (e, c) \<Rightarrow> (e, close c))"



text \<open>
  The rows the Cost History section (line 552) and the current-record query (line 375)
  select for an order; the order of display is not modelled.
\<close>

definition history_of :: "string \<Rightarrow> db \<Rightarrow> (nat \<times> cost_row) list" where
  "history_of order_number d =
     filter (\<lambda>h. f_order_number (snd h) = order_number) (fabric_cost_history d)"

definition current_of :: "string \<Rightarrow> db \<Rightarrow> cost_row list" where
  "current_of order_number d =
     filter (\<lambda>r. f_order_number r = order_number) (fabric_cost_1 d)"

subsection \<open>Accessories (lines 518-533)\<close>

definition insert_accessory :: "string \<Rightarrow> string \<Rightarrow> real \<Rightarrow> real \<Rightarrow> string \<Rightarrow> db \<Rightarrow> db" where
  "insert_accessory order_number accessory_type quantity rate now d =
     d\<lparr>accessories_details := accessories_details d @
          [\<lparr>a_id = Suc (accessories_seq d), a_order_number = order_number,
            a_accessory_type = accessory_type, a_quantity = quantity, a_rate = rate,
            a_last_updated = now\<rparr>],
       accessories_seq := Suc (accessories_seq d)\<rparr>"

definition add_accessory ::
  "db_fault \<Rightarrow> string \<Rightarrow> string \<Rightarrow> real \<Rightarrow> real \<Rightarrow> string \<Rightarrow> db \<Rightarrow> py_exception option \<times> db" where
  "add_accessory f order_number accessory_type quantity rate now d =
     (case write_and_commit f (insert_accessory order_number accessory_type quantity rate now)
             (connect d) of (e, c) \<Rightarrow> (e, close c))"

section \<open>Dashboard metrics (lines 202-226)\<close>







section \<open>Runs of the script\<close>

text \<open>
  Everything the application writes, one constructor per page action; the read-only
  pages (Dashboard, Record, and a Cost Sheet or Orders page with no button pressed) are
  \<open>View\<close>. A run is the start-up code followed by the action.
\<close>

datatype action =
    View
  | AddOrder db_fault string string string date "int option"
  | UpdateStages db_fault "nat \<Rightarrow> stage_entries" "nat option"
  | SaveCost save_fault string string int cost_inputs string
  | AddAccessory db_fault string string real real string

fun page :: "action \<Rightarrow> db \<Rightarrow> db" where
  "page View d = d"
| "page (AddOrder f order_number customer product due_date entry) d =
     snd (data_entry f order_number customer product due_date entry d)"
| "page (UpdateStages f entries clicked) d = snd (orders_page f entries clicked d)"
| "page (SaveCost f order_number item_type units i now) d =
     snd (save f order_number item_type units i now d)"
| "page (AddAccessory f order_number accessory_type quantity rate now) d =
     snd (add_accessory f order_number accessory_type quantity rate now d)"

definition run :: "action \<Rightarrow> db \<Rightarrow> db" where
  "run a d = page a (startup d)"

text \<open>A session: runs one after the other, each on the store the one before left.\<close>

fun runs :: "action list \<Rightarrow> db \<Rightarrow> db" where
  "runs [] d = d"
| "runs (a # as) d = runs as (run a d)"

text \<open>
  A run on store \<open>d\<close> is a successful save for an order number when it submits the
  cost form for that order number and the save block reports no error (line 510).
\<close>

fun saved :: "string \<Rightarrow> action \<Rightarrow> db \<Rightarrow> bool" where
  "saved k (SaveCost f order_number item_type units i now) d =
     (order_number = k \<and> fst (save f order_number item_type units i now (startup d)) = None)"
| "saved k View d = False"
| "saved k (AddOrder f order_number customer product due_date entry) d = False"
| "saved k (UpdateStages f entries clicked) d = False"
| "saved k (AddAccessory f order_number accessory_type quantity rate now) d = False"

text \<open>The number of successful saves for an order number in a session.\<close>

fun saves_count :: "string \<Rightarrow> action list \<Rightarrow> db \<Rightarrow> nat" where
  "saves_count k [] d = 0"
| "saves_count k (a # as) d = (if saved k a d then 1 else 0) + saves_count k as (run a d)"

section \<open>Example data\<close>

definition example_inputs2 :: cost_inputs where
  "example_inputs2 = example_inputs\<lparr>fabric_issued := 16.5, fabric_rate := 6\<rparr>"

definition example_record :: cost_row where
  "example_record = cost_record ''ORD-1'' ''top'' 10 example_inputs ''2024-05-01T10:00:00''"

text \<open>The store after one successful save for order \<open>ORD-1\<close>.\<close>

definition saved_db :: db where
  "saved_db = snd (save SaveOk ''ORD-1'' ''top'' 10 example_inputs ''2024-05-01T10:00:00'' empty_db)"

text \<open>
  A session on two orders: a save for \<open>ORD-1\<close>, a save for \<open>ORD-2\<close>, a new order,
  a save for \<open>ORD-1\<close> that fails at the upsert, a second successful save for \<open>ORD-1\<close>
  and a visit of the dashboard.
\<close>

definition example_session :: "action list" where
  "example_session =
     [SaveCost SaveOk ''ORD-1'' ''top'' 10 example_inputs ''2024-05-01T10:00:00'',
      SaveCost SaveOk ''ORD-2'' ''suit'' 4 example_inputs2 ''2024-05-01T11:00:00'',
      AddOrder NoFault ''ORD-3'' ''Acme'' ''top'' (2024, 6, 1) (Some 20),
      SaveCost UpsertFails ''ORD-1'' ''top'' 10 example_inputs2 ''2024-05-02T09:00:00'',
      SaveCost SaveOk ''ORD-1'' ''top'' 10 example_inputs2 ''2024-05-02T09:30:00'',
      View]"

text \<open>The store after one order was added on the Data Entry page.\<close>

definition example_orders_db :: db where
  "example_orders_db =
     snd (data_entry NoFault ''ORD-1'' ''Acme Corp'' ''Tops'' (2024, 6, 1) (Some 20) empty_db)"


text \<open>A standards table with two custom rows for trousers.\<close>

definition custom_standards_db :: db where
  "custom_standards_db =
     empty_db\<lparr>fabric_standards :=
       [\<lparr>s_product_type = ''trouser'', s_size = ''large'', s_style = ''regular'', s_fabric_per_unit = 1.4\<rparr>,
        \<lparr>s_product_type = ''trouser'', s_size = ''standard'', s_style = ''slim'', s_fabric_per_unit = 1.2\<rparr>]\<rparr>"

section \<open>Auxiliary facts\<close>

subsection \<open>Lists keyed by a column\<close>

lemma find_replaced:
  "k \<in> set (map key xs) \<Longrightarrow> key row = k \<Longrightarrow>
   find (\<lambda>r. key r = k) (map (\<lambda>r. if key r = k then row else r) xs) = Some row"
  by (induction xs) auto

lemma find_appended:
  "k \<notin> set (map key xs) \<Longrightarrow> key row = k \<Longrightarrow> find (\<lambda>r. key r = k) (xs @ [row]) = Some row"
  by (induction xs) auto

lemma load_upsert_cost:
  "load (upsert_cost row d) (f_order_number row) = Some (f_inputs row)"
  by (simp add: load_def upsert_cost_def find_replaced find_appended del: set_map)

lemma save_cases:
  "save f order_number item_type units i now d =
     (if f = SaveOk
      then (None, upsert_cost (cost_record order_number item_type units i now)
                    (insert_history (cost_record order_number item_type units i now) d))
      else (Some OperationalError, d))"
  by (cases f) (simp_all add: save_def save_block_def connect_def close_def commit_def execute_def Let_def)

lemma upsert_cost_frame:
  "orders (upsert_cost row d) = orders d"
  "orders_seq (upsert_cost row d) = orders_seq d"
  "fabric_standards (upsert_cost row d) = fabric_standards d"
  "fabric_cost_history (upsert_cost row d) = fabric_cost_history d"
  "history_seq (upsert_cost row d) = history_seq d"
  "accessories_details (upsert_cost row d) = accessories_details d"
  "accessories_seq (upsert_cost row d) = accessories_seq d"
  by (simp_all add: upsert_cost_def)

lemma insert_history_frame:
  "orders (insert_history row d) = orders d"
  "orders_seq (insert_history row d) = orders_seq d"
  "fabric_standards (insert_history row d) = fabric_standards d"
  "fabric_cost_1 (insert_history row d) = fabric_cost_1 d"
  "accessories_details (insert_history row d) = accessories_details d"
  "accessories_seq (insert_history row d) = accessories_seq d"
  by (simp_all add: insert_history_def)

lemma count_replaced:
  "distinct (map key xs) \<Longrightarrow> k \<in> set (map key xs) \<Longrightarrow> key row = k \<Longrightarrow>
   length (filter (\<lambda>r. key r = k) (map (\<lambda>r. if key r = k then row else r) xs)) = 1"
proof (induction xs)
  case Nil
  then show ?case by simp
next
  case (Cons x xs)
  show ?case
  proof (cases "key x = k")
    case True
    with Cons.prems have "k \<notin> set (map key xs)" by auto
    then have "filter (\<lambda>r. key r = k) (map (\<lambda>r. if key r = k then row else r) xs) = []"
      by (induction xs) auto
    with True Cons.prems show ?thesis by simp
  next
    case False
    with Cons show ?thesis by auto
  qed
qed

lemma count_appended:
  "k \<notin> set (map key xs) \<Longrightarrow> key row = k \<Longrightarrow>
   length (filter (\<lambda>r. key r = k) (xs @ [row])) = 1"
  by (induction xs) auto

lemma current_of_upsert_cost:
  assumes "distinct (map f_order_number (fabric_cost_1 d))"
  shows "length (current_of (f_order_number row) (upsert_cost row d)) = 1"
proof (cases "f_order_number row \<in> set (map f_order_number (fabric_cost_1 d))")
  case True
  from count_replaced [OF assms True refl] True show ?thesis
    unfolding current_of_def upsert_cost_def by simp
next
  case False
  from count_appended [OF False refl] False show ?thesis
    unfolding current_of_def upsert_cost_def by simp
qed

lemma keys_replaced:
  "key row = k \<Longrightarrow> map key (map (\<lambda>r. if key r = k then row else r) xs) = map key xs"
  by (induction xs) auto

lemma distinct_upsert_cost:
  "distinct (map f_order_number (fabric_cost_1 d)) \<Longrightarrow>
   distinct (map f_order_number (fabric_cost_1 (upsert_cost row d)))"
  by (simp add: upsert_cost_def keys_replaced del: set_map map_map)

lemma history_of_insert_history:
  "history_of k (insert_history row d) =
     history_of k d @ (if f_order_number row = k then [(Suc (history_seq d), row)] else [])"
  by (simp add: history_of_def insert_history_def)

lemma history_of_upsert_cost: "history_of k (upsert_cost row d) = history_of k d"
  by (simp add: history_of_def upsert_cost_frame)

lemma orders_loop_frame:
  assumes upd: "\<And>oid a b c' e d. g (update_orders oid a b c' e d) = g d"
  shows "g (working c) = g (committed c) \<Longrightarrow>
         g (committed (snd (orders_loop f entries clicked rows c))) = g (committed c) \<and>
         g (working (snd (orders_loop f entries clicked rows c))) = g (committed c)"
proof (induction rows arbitrary: c)
  case Nil
  then show ?case by simp
next
  case (Cons row rows)
  show ?case
  proof (cases "stage_widgets row (entries (o_id row))")
    case (Inl x)
    with Cons.prems show ?thesis by simp
  next
    case (Inr vs)
    obtain a b c' e where vs: "vs = (a, b, c', e)" by (cases vs) auto
    show ?thesis
    proof (cases "clicked = Some (o_id row)")
      case False
      with Inr vs Cons.IH [OF Cons.prems] show ?thesis by simp
    next
      case True
      show ?thesis
      proof (cases f)
        case NoFault
        with True Inr vs Cons.prems show ?thesis
          by (simp add: write_and_commit_def commit_def execute_def upd)
      next
        case ExecuteFails
        with True Inr vs Cons.IH [OF Cons.prems] show ?thesis
          by (simp add: write_and_commit_def)
      next
        case CommitFails
        have "g (working (execute (update_orders (o_id row) a b c' e) c)) =
              g (committed (execute (update_orders (o_id row) a b c' e) c))"
          using Cons.prems by (simp add: execute_def upd)
        from Cons.IH [OF this] CommitFails True Inr vs show ?thesis
          by (simp add: write_and_commit_def execute_def)
      qed
    qed
  qed
qed

lemma orders_page_frame:
  assumes "\<And>oid a b c' e d. g (update_orders oid a b c' e d) = g d"
  shows "g (snd (orders_page f entries clicked d)) = g d"
  using orders_loop_frame [of g "connect d" f entries clicked "orders d", OF assms]
  by (auto simp add: orders_page_def connect_def close_def split: prod.splits)

lemma data_entry_history:
  "fabric_cost_history (snd (data_entry f order_number customer product due_date entry d)) =
   fabric_cost_history d"
  by (cases f)
     (auto simp add: data_entry_def insert_order_def write_and_commit_def connect_def close_def
        commit_def execute_def split: sum.splits if_splits)

lemma add_accessory_history:
  "fabric_cost_history (snd (add_accessory f order_number accessory_type quantity rate now d)) =
   fabric_cost_history d"
  by (cases f)
     (simp_all add: add_accessory_def insert_accessory_def write_and_commit_def connect_def
        close_def commit_def execute_def)

lemma startup_history: "fabric_cost_history (startup d) = fabric_cost_history d"
  by (simp add: startup_def seed_standards_def connect_def close_def commit_def execute_def)

lemma save_history_prefix:
  "prefix (fabric_cost_history d) (fabric_cost_history (snd (save f order_number item_type units i now d)))"
  by (simp add: save_cases upsert_cost_frame insert_history_def)

lemma page_history_prefix: "prefix (fabric_cost_history d) (fabric_cost_history (page a d))"
proof (cases a)
  case (UpdateStages f entries clicked)
  have "fabric_cost_history (snd (orders_page f entries clicked d)) = fabric_cost_history d"
    by (rule orders_page_frame) (simp add: update_orders_def)
  with UpdateStages show ?thesis by simp
qed (simp_all add: data_entry_history add_accessory_history save_history_prefix)

lemma run_history_prefix: "prefix (fabric_cost_history d) (fabric_cost_history (run a d))"
  using page_history_prefix [of "startup d" a] by (simp add: run_def startup_history)

subsection \<open>Sessions\<close>

lemma filter_replaced_other:
  "key row \<noteq> k \<Longrightarrow>
   filter (\<lambda>r. key r = k) (map (\<lambda>r. if key r = key row then row else r) xs) =
   filter (\<lambda>r. key r = k) xs"
  by (induction xs) auto

lemma current_of_upsert_cost_other:
  assumes "f_order_number row \<noteq> k"
  shows "current_of k (upsert_cost row d) = current_of k d"
proof (cases "f_order_number row \<in> set (map f_order_number (fabric_cost_1 d))")
  case True
  from filter_replaced_other [of f_order_number row k "fabric_cost_1 d", OF assms] True
  show ?thesis
    unfolding current_of_def upsert_cost_def by simp
next
  case False
  with assms show ?thesis
    unfolding current_of_def upsert_cost_def by simp
qed

lemma current_of_insert_history: "current_of k (insert_history row d) = current_of k d"
  by (simp add: current_of_def insert_history_frame)

lemma data_entry_cost:
  "fabric_cost_1 (snd (data_entry f order_number customer product due_date entry d)) =
   fabric_cost_1 d"
  by (cases f)
     (auto simp add: data_entry_def insert_order_def write_and_commit_def connect_def close_def
        commit_def execute_def split: sum.splits if_splits)

lemma add_accessory_cost:
  "fabric_cost_1 (snd (add_accessory f order_number accessory_type quantity rate now d)) =
   fabric_cost_1 d"
  by (cases f)
     (simp_all add: add_accessory_def insert_accessory_def write_and_commit_def connect_def
        close_def commit_def execute_def)

lemma startup_cost: "fabric_cost_1 (startup d) = fabric_cost_1 d"
  by (simp add: startup_def seed_standards_def connect_def close_def commit_def execute_def)

lemma orders_page_cost: "fabric_cost_1 (snd (orders_page f entries clicked d)) = fabric_cost_1 d"
  by (rule orders_page_frame) (simp add: update_orders_def)

lemma orders_page_history:
  "fabric_cost_history (snd (orders_page f entries clicked d)) = fabric_cost_history d"
  by (rule orders_page_frame) (simp add: update_orders_def)

lemma saved_iff:
  "saved k a d = (\<exists>item_type units i now. a = SaveCost SaveOk k item_type units i now)"
  by (cases a) (auto simp add: save_cases)

lemma run_not_saved:
  assumes "\<not> saved k a d"
  shows "current_of k (run a d) = current_of k d"
    and "history_of k (run a d) = history_of k d"
proof -
  have "current_of k (run a d) = current_of k d \<and> history_of k (run a d) = history_of k d"
  proof (cases a)
    case View
    then show ?thesis
      by (simp add: run_def current_of_def history_of_def startup_cost startup_history)
  next
    case (AddOrder f order_number customer product due_date entry)
    then show ?thesis
      by (simp add: run_def current_of_def history_of_def startup_cost startup_history
          data_entry_cost data_entry_history)
  next
    case (UpdateStages f entries clicked)
    then show ?thesis
      by (simp add: run_def current_of_def history_of_def startup_cost startup_history
          orders_page_cost orders_page_history)
  next
    case (AddAccessory f order_number accessory_type quantity rate now)
    then show ?thesis
      by (simp add: run_def current_of_def history_of_def startup_cost startup_history
          add_accessory_cost add_accessory_history)
  next
    case (SaveCost f order_number item_type units i now)
    show ?thesis
    proof (cases "f = SaveOk")
      case False
      with SaveCost show ?thesis
        by (simp add: run_def save_cases current_of_def history_of_def startup_cost startup_history)
    next
      case True
      with SaveCost assms have other: "order_number \<noteq> k"
        by (auto simp add: save_cases)
      let ?row = "cost_record order_number item_type units i now"
      from other have key: "f_order_number ?row \<noteq> k"
        by (simp add: cost_record_def)
      have "current_of k (upsert_cost ?row (insert_history ?row (startup d))) = current_of k d"
        unfolding current_of_upsert_cost_other [OF key] current_of_insert_history
        by (simp add: current_of_def startup_cost)
      moreover have "history_of k (upsert_cost ?row (insert_history ?row (startup d))) = history_of k d"
        using key
        by (simp add: history_of_upsert_cost history_of_insert_history)
           (simp add: history_of_def startup_history)
      ultimately show ?thesis
        using SaveCost True by (simp add: run_def save_cases)
    qed
  qed
  then show "current_of k (run a d) = current_of k d"
    and "history_of k (run a d) = history_of k d" by simp_all
qed

lemma run_saved:
  assumes "saved k a d" and "distinct (map f_order_number (fabric_cost_1 d))"
  shows "length (current_of k (run a d)) = 1"
proof -
  from assms(1) have "\<exists>item_type units i now. a = SaveCost SaveOk k item_type units i now"
    by (simp only: saved_iff)
  then obtain item_type units i now
    where a: "a = SaveCost SaveOk k item_type units i now"
    by blast
  let ?row = "cost_record k item_type units i now"
  have key: "f_order_number ?row = k"
    by (simp add: cost_record_def)
  have "distinct (map f_order_number (fabric_cost_1 (insert_history ?row (startup d))))"
    using assms(2) by (simp add: insert_history_frame startup_cost)
  from current_of_upsert_cost [OF this, of ?row]
  show "length (current_of k (run a d)) = 1"
    by (simp add: a run_def save_cases key)
qed

lemma run_saved_history:
  assumes "saved k a d"
  shows "length (history_of k (run a d)) = Suc (length (history_of k d))"
proof -
  from assms(1) have "\<exists>item_type units i now. a = SaveCost SaveOk k item_type units i now"
    by (simp only: saved_iff)
  then obtain item_type units i now
    where a: "a = SaveCost SaveOk k item_type units i now"
    by blast
  let ?row = "cost_record k item_type units i now"
  have key: "f_order_number ?row = k"
    by (simp add: cost_record_def)
  show ?thesis
    using key
    by (simp add: a run_def save_cases history_of_upsert_cost history_of_insert_history)
       (simp add: history_of_def startup_history)
qed

lemma run_distinct:
  assumes "distinct (map f_order_number (fabric_cost_1 d))"
  shows "distinct (map f_order_number (fabric_cost_1 (run a d)))"
proof (cases a)
  case (SaveCost f order_number item_type units i now)
  let ?row = "cost_record order_number item_type units i now"
  have "distinct (map f_order_number (fabric_cost_1 (insert_history ?row (startup d))))"
    using assms by (simp add: insert_history_frame startup_cost)
  then have "distinct (map f_order_number (fabric_cost_1 (upsert_cost ?row (insert_history ?row (startup d)))))"
    by (rule distinct_upsert_cost)
  with SaveCost assms show ?thesis
    by (simp add: run_def save_cases startup_cost)
qed (simp_all add: assms run_def startup_cost data_entry_cost orders_page_cost add_accessory_cost)

lemma runs_history_prefix: "prefix (fabric_cost_history d) (fabric_cost_history (runs as d))"
proof (induction as arbitrary: d)
  case Nil
  show ?case by simp
next
  case (Cons a as)
  have "prefix (fabric_cost_history d) (fabric_cost_history (run a d))"
    by (rule run_history_prefix)
  also have "prefix (fabric_cost_history (run a d)) (fabric_cost_history (runs as (run a d)))"
    by (rule Cons.IH)
  finally show ?case by simp
qed

lemma runs_history_count:
  "length (history_of k (runs as d)) = length (history_of k d) + saves_count k as d"
proof (induction as arbitrary: d)
  case Nil
  show ?case by simp
next
  case (Cons a as)
  show ?case
  proof (cases "saved k a d")
    case True
    show ?thesis
      using Cons.IH [of "run a d"] run_saved_history [OF True] True by simp
  next
    case False
    show ?thesis
      using Cons.IH [of "run a d"] run_not_saved(2) [OF False] False by simp
  qed
qed

lemma runs_distinct:
  "distinct (map f_order_number (fabric_cost_1 d)) \<Longrightarrow>
   distinct (map f_order_number (fabric_cost_1 (runs as d)))"
proof (induction as arbitrary: d)
  case Nil
  then show ?case by simp
next
  case (Cons a as)
  from Cons.prems have "distinct (map f_order_number (fabric_cost_1 (run a d)))"
    by (rule run_distinct)
  then have "distinct (map f_order_number (fabric_cost_1 (runs as (run a d))))"
    by (rule Cons.IH)
  then show ?case by simp
qed

lemma runs_not_saved:
  "saves_count k as d = 0 \<Longrightarrow> current_of k (runs as d) = current_of k d"
proof (induction as arbitrary: d)
  case Nil
  show ?case by simp
next
  case (Cons a as)
  from Cons.prems have no: "\<not> saved k a d" and rest: "saves_count k as (run a d) = 0"
    by (simp_all split: if_splits)
  from Cons.IH [OF rest] run_not_saved(1) [OF no] show ?case by simp
qed

lemma runs_current:
  "distinct (map f_order_number (fabric_cost_1 d)) \<Longrightarrow> 1 \<le> saves_count k as d \<Longrightarrow>
   length (current_of k (runs as d)) = 1"
proof (induction as arbitrary: d)
  case Nil
  then show ?case by simp
next
  case (Cons a as)
  from Cons.prems(1) have step: "distinct (map f_order_number (fabric_cost_1 (run a d)))"
    by (rule run_distinct)
  show ?case
  proof (cases "1 \<le> saves_count k as (run a d)")
    case True
    from Cons.IH [OF step True] show ?thesis by simp
  next
    case False
    then have rest: "saves_count k as (run a d) = 0" by simp
    with Cons.prems(2) have now: "saved k a d"
      by (simp split: if_splits)
    from runs_not_saved [OF rest] run_saved [OF now Cons.prems(1)] show ?thesis by simp
  qed
qed

subsection \<open>Stage counters\<close>

lemma number_input_bounds:
  "number_input (Some lo) (Some hi) v e = Inr x \<Longrightarrow> lo \<le> x \<and> x \<le> hi"
  by (auto simp add: number_input_def in_bounds_def split: if_splits option.splits)

lemma number_input_accepts:
  "lo \<le> v \<Longrightarrow> v \<le> hi \<Longrightarrow>
   number_input (Some lo) (Some hi) v e =
     Inr (case e of None \<Rightarrow> v | Some w \<Rightarrow> if lo \<le> w \<and> w \<le> hi then w else v)"
  by (auto simp add: number_input_def in_bounds_def split: option.splits)

lemma stage_widgets_bounds:
  assumes "stage_widgets row es = Inr (a, b, c, e)"
  shows "0 \<le> a \<and> a \<le> o_quantity row \<and> 0 \<le> b \<and> b \<le> o_quantity row \<and>
         0 \<le> c \<and> c \<le> o_quantity row \<and> 0 \<le> e \<and> e \<le> o_quantity row"
proof -
  obtain e1 e2 e3 e4 where es: "es = (e1, e2, e3, e4)" by (cases es) auto
  from assms have
    "number_input (Some 0) (Some (o_quantity row)) (o_cutting row) e1 = Inr a"
    "number_input (Some 0) (Some (o_quantity row)) (o_sewing row) e2 = Inr b"
    "number_input (Some 0) (Some (o_quantity row)) (o_finishing row) e3 = Inr c"
    "number_input (Some 0) (Some (o_quantity row)) (o_packaging row) e4 = Inr e"
    by (auto simp add: stage_widgets_def es split: sum.splits)
  then show ?thesis
    using number_input_bounds by blast
qed

lemma stage_widgets_accepts:
  assumes "stage_ok row"
  shows "stage_widgets row (e1, e2, e3, e4) =
     Inr (case e1 of None \<Rightarrow> o_cutting row
            | Some w \<Rightarrow> if 0 \<le> w \<and> w \<le> o_quantity row then w else o_cutting row,
          case e2 of None \<Rightarrow> o_sewing row
            | Some w \<Rightarrow> if 0 \<le> w \<and> w \<le> o_quantity row then w else o_sewing row,
          case e3 of None \<Rightarrow> o_finishing row
            | Some w \<Rightarrow> if 0 \<le> w \<and> w \<le> o_quantity row then w else o_finishing row,
          case e4 of None \<Rightarrow> o_packaging row
            | Some w \<Rightarrow> if 0 \<le> w \<and> w \<le> o_quantity row then w else o_packaging row)"
  using assms by (simp add: stage_widgets_def stage_ok_def number_input_accepts)

lemma stage_ok_update:
  "stage_ok (r\<lparr>o_cutting := a, o_sewing := b, o_finishing := c, o_packaging := e\<rparr>) =
     (0 \<le> a \<and> a \<le> o_quantity r \<and> 0 \<le> b \<and> b \<le> o_quantity r \<and>
      0 \<le> c \<and> c \<le> o_quantity r \<and> 0 \<le> e \<and> e \<le> o_quantity r)"
  by (simp add: stage_ok_def)

lemma update_orders_stage_ok:
  assumes inv: "\<forall>r\<in>set (orders d). stage_ok r"
    and key: "\<forall>r\<in>set (orders d). o_id r = oid \<longrightarrow> o_quantity r = q"
    and bounds: "0 \<le> a \<and> a \<le> q \<and> 0 \<le> b \<and> b \<le> q \<and> 0 \<le> c \<and> c \<le> q \<and> 0 \<le> e \<and> e \<le> q"
  shows "\<forall>r\<in>set (orders (update_orders oid a b c e d)). stage_ok r"
proof
  fix r'
  assume "r' \<in> set (orders (update_orders oid a b c e d))"
  then obtain r where r: "r \<in> set (orders d)"
    and r': "r' = (if o_id r = oid
                   then r\<lparr>o_cutting := a, o_sewing := b, o_finishing := c, o_packaging := e\<rparr>
                   else r)"
    unfolding update_orders_def by auto
  show "stage_ok r'"
  proof (cases "o_id r = oid")
    case True
    with key r have "o_quantity r = q" by blast
    with True r' bounds show ?thesis by (simp add: stage_ok_update)
  next
    case False
    with r r' inv show ?thesis by simp
  qed
qed

lemma ball_map_keys:
  assumes "\<And>r. key (f r) = key r" and "\<And>r. val (f r) = val r"
  shows "(\<forall>r\<in>set (map f xs). key r = k \<longrightarrow> val r = q) = (\<forall>r\<in>set xs. key r = k \<longrightarrow> val r = q)"
  by (induction xs) (simp_all add: assms)

lemma update_orders_keys:
  "(\<forall>r\<in>set (orders (update_orders oid a b c e d)). o_id r = k \<longrightarrow> o_quantity r = q) =
   (\<forall>r\<in>set (orders d). o_id r = k \<longrightarrow> o_quantity r = q)"
proof -
  let ?f = "\<lambda>r. if o_id r = oid
                 then r\<lparr>o_cutting := a, o_sewing := b, o_finishing := c, o_packaging := e\<rparr>
                 else r"
  have "orders (update_orders oid a b c e d) = map ?f (orders d)"
    by (simp add: update_orders_def)
  moreover have "(\<forall>r\<in>set (map ?f (orders d)). o_id r = k \<longrightarrow> o_quantity r = q) =
                 (\<forall>r\<in>set (orders d). o_id r = k \<longrightarrow> o_quantity r = q)"
    by (rule ball_map_keys) simp_all
  ultimately show ?thesis by (simp only:)
qed

lemma orders_loop_stage_ok:
  assumes "\<forall>r\<in>set (orders (working c)). stage_ok r"
    and "\<forall>r\<in>set (orders (committed c)). stage_ok r"
    and "\<forall>row\<in>set rows. \<forall>r\<in>set (orders (working c)). o_id r = o_id row \<longrightarrow> o_quantity r = o_quantity row"
  shows "\<forall>r\<in>set (orders (committed (snd (orders_loop f entries clicked rows c)))). stage_ok r"
  using assms
proof (induction rows arbitrary: c)
  case Nil
  then show ?case by simp
next
  case (Cons row rows)
  have rest: "\<forall>row\<in>set rows. \<forall>r\<in>set (orders (working c)). o_id r = o_id row \<longrightarrow> o_quantity r = o_quantity row"
    using Cons.prems(3) by simp
  show ?case
  proof (cases "stage_widgets row (entries (o_id row))")
    case (Inl x)
    with Cons.prems show ?thesis by simp
  next
    case (Inr vs)
    obtain a b c' e where vs: "vs = (a, b, c', e)" by (cases vs) auto
    show ?thesis
    proof (cases "clicked = Some (o_id row)")
      case False
      with Inr vs Cons.IH [OF Cons.prems(1,2) rest] show ?thesis by simp
    next
      case True
      let ?u = "update_orders (o_id row) a b c' e"
      have key: "\<forall>r\<in>set (orders (working c)). o_id r = o_id row \<longrightarrow> o_quantity r = o_quantity row"
        using Cons.prems(3) by simp
      have "stage_widgets row (entries (o_id row)) = Inr (a, b, c', e)"
        using Inr vs by simp
      then have bounds: "0 \<le> a \<and> a \<le> o_quantity row \<and> 0 \<le> b \<and> b \<le> o_quantity row \<and>
          0 \<le> c' \<and> c' \<le> o_quantity row \<and> 0 \<le> e \<and> e \<le> o_quantity row"
        by (rule stage_widgets_bounds)
      have upd: "\<forall>r\<in>set (orders (?u (working c))). stage_ok r"
        by (rule update_orders_stage_ok [OF Cons.prems(1) key bounds])
      show ?thesis
      proof (cases f)
        case NoFault
        with True Inr vs upd show ?thesis
          by (simp add: write_and_commit_def commit_def execute_def)
      next
        case ExecuteFails
        with True Inr vs Cons.IH [OF Cons.prems(1,2) rest] show ?thesis
          by (simp add: write_and_commit_def)
      next
        case CommitFails
        have w: "\<forall>r\<in>set (orders (working (execute ?u c))). stage_ok r"
          using upd by (simp add: execute_def)
        have k: "\<forall>r\<in>set (orders (committed (execute ?u c))). stage_ok r"
          using Cons.prems(2) by (simp add: execute_def)
        have rest': "\<forall>row\<in>set rows. \<forall>r\<in>set (orders (working (execute ?u c))).
            o_id r = o_id row \<longrightarrow> o_quantity r = o_quantity row"
          using rest by (simp add: execute_def update_orders_keys)
        have "\<forall>r\<in>set (orders (committed (snd (orders_loop f entries clicked rows (execute ?u c))))). stage_ok r"
          by (rule Cons.IH [OF w k rest'])
        with CommitFails True Inr vs show ?thesis
          by (simp add: write_and_commit_def)
      qed
    qed
  qed
qed

lemma orders_page_stage_ok:
  assumes inv: "\<forall>r\<in>set (orders d). stage_ok r" and ids: "distinct (map o_id (orders d))"
  shows "\<forall>r\<in>set (orders (snd (orders_page f entries clicked d))). stage_ok r"
proof -
  have inj: "inj_on o_id (set (orders d))"
    using ids by (simp add: distinct_map)
  have key: "\<forall>row\<in>set (orders d). \<forall>r\<in>set (orders d).
      o_id r = o_id row \<longrightarrow> o_quantity r = o_quantity row"
  proof (intro ballI impI)
    fix row r
    assume "row \<in> set (orders d)" and "r \<in> set (orders d)" and "o_id r = o_id row"
    note this(3) this(2) this(1)
    then have "r = row" by (intro inj_onD [OF inj])
    then show "o_quantity r = o_quantity row" by (rule arg_cong)
  qed
  have w: "\<forall>r\<in>set (orders (working (connect d))). stage_ok r"
    using inv by (simp add: connect_def)
  have k: "\<forall>r\<in>set (orders (committed (connect d))). stage_ok r"
    using inv by (simp add: connect_def)
  have same: "working (connect d) = d"
    by (simp add: connect_def)
  have key': "\<forall>row\<in>set (orders d). \<forall>r\<in>set (orders (working (connect d))).
      o_id r = o_id row \<longrightarrow> o_quantity r = o_quantity row"
    unfolding same by (rule key)
  have "\<forall>r\<in>set (orders (committed (snd (orders_loop f entries clicked (orders d) (connect d))))).
      stage_ok r"
    by (rule orders_loop_stage_ok [OF w k key'])
  then show ?thesis
    by (simp add: orders_page_def close_def split_beta)
qed

lemma stage_widgets_returns:
  assumes "stage_ok row"
  shows "\<exists>a b c e. stage_widgets row es = Inr (a, b, c, e)"
proof -
  obtain e1 e2 e3 e4 where es: "es = (e1, e2, e3, e4)" by (cases es) auto
  show ?thesis
    unfolding es stage_widgets_accepts [OF assms] by blast
qed

lemma orders_loop_skip:
  assumes "\<forall>r\<in>set xs. stage_ok r \<and> o_id r \<noteq> k"
  shows "orders_loop f entries (Some k) (xs @ rest) c = orders_loop f entries (Some k) rest c"
  using assms
proof (induction xs)
  case Nil
  then show ?case by simp
next
  case (Cons x xs)
  from Cons.prems have ok: "stage_ok x" and other: "o_id x \<noteq> k" by simp_all
  from stage_widgets_returns [OF ok] obtain a b c' e
    where vs: "stage_widgets x (entries (o_id x)) = Inr (a, b, c', e)" by blast
  have "orders_loop f entries (Some k) (xs @ rest) c = orders_loop f entries (Some k) rest c"
    using Cons.prems by (intro Cons.IH) simp
  with vs other show ?case by simp
qed

lemma orders_page_update:
  assumes inv: "\<forall>r\<in>set (orders d). stage_ok r" and ids: "distinct (map o_id (orders d))"
    and row: "row \<in> set (orders d)"
    and vs: "stage_widgets row (entries (o_id row)) = Inr (a, b, c, e)"
  shows "orders_page NoFault entries (Some (o_id row)) d =
           (None, update_orders (o_id row) a b c e d)"
proof -
  from row obtain xs ys where decomp: "orders d = xs @ row # ys"
    by (auto simp add: in_set_conv_decomp)
  have "o_id row \<notin> set (map o_id xs)"
    using ids unfolding decomp by simp
  then have "\<forall>r\<in>set xs. o_id r \<noteq> o_id row"
  proof (intro ballI notI)
    fix r
    assume absent: "o_id row \<notin> set (map o_id xs)" and "r \<in> set xs" and same: "o_id r = o_id row"
    from \<open>r \<in> set xs\<close> have "o_id r \<in> o_id ` set xs" by (rule imageI)
    with same absent show False by simp
  qed
  moreover have "\<forall>r\<in>set xs. stage_ok r"
    using inv unfolding decomp by simp
  ultimately have "\<forall>r\<in>set xs. stage_ok r \<and> o_id r \<noteq> o_id row" by simp
  then have "orders_loop NoFault entries (Some (o_id row)) (xs @ row # ys) (connect d) =
             orders_loop NoFault entries (Some (o_id row)) (row # ys) (connect d)"
    by (rule orders_loop_skip)
  also have "\<dots> = (None, commit (execute (update_orders (o_id row) a b c e) (connect d)))"
    using vs by (simp add: write_and_commit_def)
  finally show ?thesis
    by (simp add: orders_page_def decomp [symmetric] commit_def execute_def connect_def close_def)
qed

subsection \<open>Fabric standards\<close>

lemma fetch_standard_None:
  "(fetch_standard d product_type size' = None) =
     (\<forall>r\<in>set (fabric_standards d). \<not> (s_product_type r = product_type \<and> s_size r = size'))"
  by (auto simp add: fetch_standard_def find_None_iff)

lemma fetch_standard_Some:
  assumes "fetch_standard d product_type size' = Some per_unit"
  shows "\<exists>r\<in>set (fabric_standards d).
           s_product_type r = product_type \<and> s_size r = size' \<and> s_fabric_per_unit r = per_unit"
proof -
  from assms obtain r
    where f: "find (\<lambda>r. s_product_type r = product_type \<and> s_size r = size') (fabric_standards d) = Some r"
      and p: "s_fabric_per_unit r = per_unit"
    by (auto simp add: fetch_standard_def)
  from f obtain i where "i < length (fabric_standards d)" and "fabric_standards d ! i = r"
    and "s_product_type r = product_type \<and> s_size r = size'"
    unfolding find_Some_iff by blast
  with p show ?thesis
    using nth_mem by blast
qed

subsection \<open>Data entry and dashboard\<close>

lemma quantity_widget:
  "number_input (Some 1) None 1 entry =
     Inr (case entry of None \<Rightarrow> 1 | Some v \<Rightarrow> if 1 \<le> v then v else 1)"
  by (simp add: number_input_def in_bounds_def split: option.splits)

lemma data_entry_cases:
  "data_entry f order_number customer product due_date entry d =
     (if order_number \<in> set (map o_order_number (orders d)) then (Some IntegrityError, d)
      else if f = NoFault
        then (None, d\<lparr>orders := orders d @
                     [new_order (Suc (orders_seq d)) order_number customer product due_date
                        (case entry of None \<Rightarrow> 1 | Some v \<Rightarrow> if 1 \<le> v then v else 1)],
                   orders_seq := Suc (orders_seq d)\<rparr>)
      else (Some OperationalError, d))"
  by (cases f)
     (simp_all add: data_entry_def quantity_widget insert_order_def write_and_commit_def
        connect_def close_def commit_def execute_def)



section \<open>The claims\<close>

text \<open>
  C1 (as amended). For every input tuple the computation returns a breakdown (it never
  raises, in particular not on \<open>units = 0\<close>) in which the fabric cost is issued fabric
  times rate, each of the eight unit-based components is units times its rate, the
  total is the sum of the eleven components, and the cost per unit is total / units for
  non-zero units and 0 for zero units. On the inputs of the worked example (10 units)
  the components are 75, 20, 10, 30, 40, 40, 40, 0 and 0, the total is 315 and the cost
  per unit is 31.5.
\<close>

theorem compute_breakdown:
  "(\<exists>b. compute units i = Inr b
     \<and> fabric_cost b = fabric_issued i * fabric_rate i
     \<and> accessories_cost b = real_of_int units * accessories_rate i
     \<and> printing_cost b = real_of_int units * printing_rate i
     \<and> overhead_cost b = real_of_int units * overhead_per_unit i
     \<and> labor_cutting_cost b = real_of_int units * labor_cutting_rate i
     \<and> labor_sewing_cost b = real_of_int units * labor_sewing_rate i
     \<and> labor_finishing_cost b = real_of_int units * labor_finishing_rate i
     \<and> dyeing_cost b = real_of_int units * dyeing_rate i
     \<and> embroidery_cost b = real_of_int units * embroidery_rate i
     \<and> total_cost b = fabric_cost b + accessories_cost b + printing_cost b + overhead_cost b
           + labor_cutting_cost b + labor_sewing_cost b + labor_finishing_cost b
           + dyeing_cost b + embroidery_cost b + shipping_cost i + misc_cost i
     \<and> cost_per_unit b = (if units = 0 then 0 else total_cost b / real_of_int units))
   \<and> (\<exists>b. compute 10 example_inputs = Inr b
     \<and> fabric_cost b = 75 \<and> accessories_cost b = 20 \<and> printing_cost b = 10
     \<and> overhead_cost b = 30 \<and> labor_cutting_cost b = 40 \<and> labor_sewing_cost b = 40
     \<and> labor_finishing_cost b = 40 \<and> dyeing_cost b = 0 \<and> embroidery_cost b = 0
     \<and> total_cost b = 315 \<and> cost_per_unit b = 31.5)"
  by (simp add: compute_def py_truediv_def Let_def example_inputs_def)

theorem compute_breakdown_witness:
  "(\<exists>b. compute 0 example_inputs = Inr b \<and> fabric_cost b = 75 \<and> accessories_cost b = 0
        \<and> total_cost b = 135 \<and> cost_per_unit b = 0)
   \<and> (\<exists>b. compute 10 example_inputs = Inr b \<and> total_cost b = 315 \<and> cost_per_unit b = 31.5)"
  using compute_breakdown [of 0 example_inputs]
  by (auto simp add: example_inputs_def)

text \<open>
  The figures the specification gives for its worked example, total 335 and cost per
  unit 33.5, are not what the computation returns: the eleven components it lists add
  up to 315.
\<close>

theorem compute_example_counterexample:
  "\<not> (\<exists>b. compute 10 example_inputs = Inr b \<and> total_cost b = 335 \<and> cost_per_unit b = 33.5)"
  by (simp add: compute_def py_truediv_def Let_def example_inputs_def)

text \<open>
  C2. After a successful save for an order number, loading that order number returns
  exactly the twelve saved input values, whatever the store held before (no record for
  the order, or an earlier one, which is replaced).
\<close>

theorem save_load_roundtrip:
  "fst (save f order_number item_type units i now d) = None \<Longrightarrow>
   load (snd (save f order_number item_type units i now d)) order_number = Some i"
  using load_upsert_cost [of "cost_record order_number item_type units i now"]
  by (simp add: save_cases cost_record_def split: if_splits)

theorem save_load_roundtrip_witness:
  "fst (save SaveOk ''ORD-1'' ''top'' 10 example_inputs2 ''2024-05-02T09:30:00'' saved_db) = None \<and>
   load saved_db ''ORD-1'' = Some example_inputs \<and>
   load (snd (save SaveOk ''ORD-1'' ''top'' 10 example_inputs2 ''2024-05-02T09:30:00'' saved_db)) ''ORD-1''
     = Some example_inputs2"
proof -
  have ok: "fst (save SaveOk ''ORD-1'' ''top'' 10 example_inputs2 ''2024-05-02T09:30:00'' saved_db) = None"
    by (simp add: save_cases)
  have before: "load saved_db ''ORD-1'' = Some example_inputs"
    using load_upsert_cost [of example_record "insert_history example_record empty_db"]
    by (simp add: saved_db_def save_cases example_record_def cost_record_def)
  from ok before save_load_roundtrip [OF ok] show ?thesis by simp
qed

text \<open>
  C3. In every session, that is, every sequence of runs of the application in which
  saves for different orders, failed saves and the other pages interleave in any way,
  and for every order number: the history holds as many more rows for the order number
  as the session had successful saves for it (exactly \<open>N\<close> after \<open>N\<close> saves when it held
  none before); after at least one successful save the current-record table, whose
  primary key is the order number, holds exactly one row for it, and without one its
  rows for the order number are untouched; and no run changes or removes a history
  row: the history before the session is a prefix of the history after it.
\<close>

theorem runs_history_append_only:
  assumes "distinct (map f_order_number (fabric_cost_1 d))"
  shows "length (history_of k (runs as d)) = length (history_of k d) + saves_count k as d \<and>
         (history_of k d = [] \<longrightarrow> length (history_of k (runs as d)) = saves_count k as d) \<and>
         (1 \<le> saves_count k as d \<longrightarrow> length (current_of k (runs as d)) = 1) \<and>
         (saves_count k as d = 0 \<longrightarrow> current_of k (runs as d) = current_of k d) \<and>
         distinct (map f_order_number (fabric_cost_1 (runs as d))) \<and>
         prefix (fabric_cost_history d) (fabric_cost_history (runs as d))"
  using runs_history_count [of k as d] runs_current [OF assms, of k as] runs_not_saved [of k as d]
    runs_distinct [OF assms, of as] runs_history_prefix [of d as]
  by simp

theorem runs_history_append_only_witness:
  "distinct (map f_order_number (fabric_cost_1 empty_db)) \<and>
   history_of ''ORD-1'' empty_db = [] \<and>
   saves_count ''ORD-1'' example_session empty_db = 2 \<and>
   length (history_of ''ORD-1'' (runs example_session empty_db)) = 2 \<and>
   length (current_of ''ORD-1'' (runs example_session empty_db)) = 1 \<and>
   saves_count ''ORD-2'' example_session empty_db = 1 \<and>
   saves_count ''ORD-3'' example_session empty_db = 0"
  using runs_history_append_only [of empty_db "''ORD-1''" example_session]
  by (simp add: example_session_def save_cases empty_db_def history_of_def)

text \<open>
  C4 (as amended). Whatever fails in the save block, the stored database after the run
  holds either both writes (the new history row and the replaced current record, when
  nothing failed) or neither (the store as it was, when the history insert, the upsert
  or the commit failed): both statements run in one transaction that only the commit
  at the end of the block makes durable, and the end of the run discards it otherwise.
\<close>

theorem save_all_or_nothing:
  "save f order_number item_type units i now d =
     (None, upsert_cost (cost_record order_number item_type units i now)
              (insert_history (cost_record order_number item_type units i now) d))
   \<or> save f order_number item_type units i now d = (Some OperationalError, d)"
  by (simp add: save_cases)

theorem save_all_or_nothing_witness:
  "save UpsertFails ''ORD-1'' ''top'' 10 example_inputs ''2024-05-01T10:00:00'' empty_db
     = (Some OperationalError, empty_db) \<and>
   history_of ''ORD-1'' saved_db = [(1, example_record)] \<and>
   current_of ''ORD-1'' saved_db = [example_record]"
  using save_all_or_nothing [of UpsertFails "''ORD-1''" "''top''" 10 example_inputs
      "''2024-05-01T10:00:00''" empty_db]
  by (simp add: save_cases saved_db_def example_record_def history_of_def current_of_def
      upsert_cost_def insert_history_def empty_db_def cost_record_def)

text \<open>
  Inside the run in which the upsert fails after the history insert, the two writes are
  not seen as a unit: neither handler rolls back, so the statements that follow in the
  same run (the Cost History query of line 552 among them) read the new history row
  through the connection, while the current-record table has no row for the order.
\<close>

theorem save_fault_view_counterexample:
  "fst (save_block UpsertFails example_record (connect empty_db)) = Some OperationalError \<and>
   history_of ''ORD-1'' (working (snd (save_block UpsertFails example_record (connect empty_db))))
     = [(1, example_record)] \<and>
   current_of ''ORD-1'' (working (snd (save_block UpsertFails example_record (connect empty_db))))
     = []"
  by (simp add: save_block_def execute_def connect_def insert_history_def empty_db_def
      history_of_def current_of_def example_record_def cost_record_def)

text \<open>
  C10. A run that saves a cost record, whether the save succeeds or fails, leaves the
  orders table (with every quantity and stage counter), the accessories table and the
  fabric standards as they were.
\<close>

theorem save_frame:
  "orders (snd (save f order_number item_type units i now d)) = orders d \<and>
   orders_seq (snd (save f order_number item_type units i now d)) = orders_seq d \<and>
   accessories_details (snd (save f order_number item_type units i now d)) = accessories_details d \<and>
   accessories_seq (snd (save f order_number item_type units i now d)) = accessories_seq d \<and>
   fabric_standards (snd (save f order_number item_type units i now d)) = fabric_standards d"
  by (simp add: save_cases upsert_cost_frame insert_history_frame)

text \<open>
  C5. The fabric required for an order is resolved in this order. The override comes
  from a widget with minimum 0, so it is never negative; when it is above 0 the
  requirement is override times units. Otherwise it is the resolved per-unit value times
  units, where the per-unit value is the \<open>fabric_per_unit\<close> of a row of
  \<open>fabric_standards\<close> for the product type and size \<open>standard\<close>, when there is one;
  without such a row the constant of the built-in table (top 1.5, trouser 1.0, suit 2.5),
  and 0 for a type in neither. For \<open>trouser\<close> with no standards row the per-unit value
  is 1.0.
\<close>

theorem fabric_required_chain:
  assumes "0 \<le> override"
  shows "(0 < override \<longrightarrow>
            fabric_required override units (fabric_required_std query_fails d item_type units)
              = override * real_of_int units) \<and>
         (override = 0 \<longrightarrow>
            fabric_required override units (fabric_required_std False d item_type units)
              = resolve d item_type * real_of_int units) \<and>
         fabric_required_std False d item_type units = resolve d item_type * real_of_int units \<and>
         (\<forall>per_unit. fetch_standard d item_type ''standard'' = Some per_unit \<longrightarrow>
            resolve d item_type = per_unit \<and>
            (\<exists>r\<in>set (fabric_standards d). s_product_type r = item_type \<and> s_size r = ''standard'' \<and>
               s_fabric_per_unit r = per_unit)) \<and>
         (fetch_standard d item_type ''standard'' = None) =
            (\<forall>r\<in>set (fabric_standards d). \<not> (s_product_type r = item_type \<and> s_size r = ''standard'')) \<and>
         (fetch_standard d item_type ''standard'' = None \<longrightarrow>
            resolve d item_type =
              (if item_type = ''top'' then 1.5 else if item_type = ''trouser'' then 1.0
               else if item_type = ''suit'' then 2.5 else 0)) \<and>
         (fetch_standard d ''trouser'' ''standard'' = None \<longrightarrow> resolve d ''trouser'' = 1.0)"
proof -
  have a: "0 < override \<longrightarrow>
            fabric_required override units (fabric_required_std query_fails d item_type units)
              = override * real_of_int units"
    by (simp add: fabric_required_def)
  have b: "override = 0 \<longrightarrow>
            fabric_required override units (fabric_required_std False d item_type units)
              = resolve d item_type * real_of_int units"
    by (simp add: fabric_required_def fabric_required_std_def resolve_def dict_get_def
        split: option.splits)
  have c: "fabric_required_std False d item_type units = resolve d item_type * real_of_int units"
    by (simp add: fabric_required_std_def resolve_def dict_get_def split: option.splits)
  have e: "\<forall>per_unit. fetch_standard d item_type ''standard'' = Some per_unit \<longrightarrow>
            resolve d item_type = per_unit \<and>
            (\<exists>r\<in>set (fabric_standards d). s_product_type r = item_type \<and> s_size r = ''standard'' \<and>
               s_fabric_per_unit r = per_unit)"
    using fetch_standard_Some [of d item_type "''standard''"] by (simp add: resolve_def)
  have g: "(fetch_standard d item_type ''standard'' = None) =
            (\<forall>r\<in>set (fabric_standards d). \<not> (s_product_type r = item_type \<and> s_size r = ''standard''))"
    by (rule fetch_standard_None)
  have h: "fetch_standard d item_type ''standard'' = None \<longrightarrow>
            resolve d item_type =
              (if item_type = ''top'' then 1.5 else if item_type = ''trouser'' then 1.0
               else if item_type = ''suit'' then 2.5 else 0)"
    by (simp add: resolve_def FABRIC_STANDARD_def)
  have i: "fetch_standard d ''trouser'' ''standard'' = None \<longrightarrow> resolve d ''trouser'' = 1.0"
    by (simp add: resolve_def FABRIC_STANDARD_def)
  from a b c e g h i show ?thesis by (intro conjI)
qed

theorem fabric_required_chain_witness:
  "(0::real) \<le> 0 \<and>
   fetch_standard empty_db ''trouser'' ''standard'' = None \<and>
   resolve empty_db ''trouser'' = 1.0 \<and>
   fabric_required 0 10 (fabric_required_std False empty_db ''trouser'' 10) = 10 \<and>
   fabric_required_std False empty_db ''trouser'' 10 = 10 \<and>
   resolve empty_db ''skirt'' = 0 \<and>
   resolve (startup empty_db) ''suit'' = 2.5 \<and>
   resolve custom_standards_db ''trouser'' = 1.2 \<and>
   fabric_required 0 10 (fabric_required_std False custom_standards_db ''trouser'' 10) = 12 \<and>
   fabric_required 2 10 (fabric_required_std False custom_standards_db ''trouser'' 10) = 20"
  using fabric_required_chain [of 0 10 False empty_db "''trouser''"]
    fabric_required_chain [of 2 10 False custom_standards_db "''trouser''"]
  by (simp add: fetch_standard_def empty_db_def fabric_required_def fabric_required_std_def
      resolve_def FABRIC_STANDARD_def custom_standards_db_def startup_def seed_standards_def
      default_standards_def connect_def close_def commit_def execute_def)



text \<open>
  C6 (as amended). Submitting the Data Entry form for an order number that already
  exists reports the integrity error (``Order number must be unique'') and leaves the
  store as it was. For a new order number, and without a store fault, it appends exactly
  one row, with the next id, the submitted fields and the four stage counters 0; its
  quantity is the value of a widget with minimum 1, that is, the number entered when
  that is at least 1 and 1 otherwise, so it is never below 1. With a store fault the
  error is reported and the store is as it was.
\<close>

theorem data_entry_create:
  "(order_number \<in> set (map o_order_number (orders d)) \<longrightarrow>
      data_entry f order_number customer product due_date entry d = (Some IntegrityError, d)) \<and>
   (order_number \<notin> set (map o_order_number (orders d)) \<longrightarrow>
      (\<exists>quantity row.
         quantity = (case entry of None \<Rightarrow> 1 | Some v \<Rightarrow> if 1 \<le> v then v else 1) \<and>
         1 \<le> quantity \<and>
         row = new_order (Suc (orders_seq d)) order_number customer product due_date quantity \<and>
         data_entry NoFault order_number customer product due_date entry d =
           (None, d\<lparr>orders := orders d @ [row], orders_seq := Suc (orders_seq d)\<rparr>) \<and>
         o_order_number row = order_number \<and> o_quantity row = quantity \<and>
         o_cutting row = 0 \<and> o_sewing row = 0 \<and> o_finishing row = 0 \<and> o_packaging row = 0) \<and>
      (f \<noteq> NoFault \<longrightarrow>
         data_entry f order_number customer product due_date entry d = (Some OperationalError, d)))"
  by (simp add: data_entry_cases new_order_def split: option.splits)

theorem data_entry_create_witness:
  "orders example_orders_db = [new_order 1 ''ORD-1'' ''Acme Corp'' ''Tops'' (2024, 6, 1) 20] \<and>
   data_entry NoFault ''ORD-1'' ''Beta Ltd'' ''Suits'' (2024, 7, 1) (Some 5) example_orders_db
     = (Some IntegrityError, example_orders_db) \<and>
   data_entry NoFault ''ORD-2'' ''Beta Ltd'' ''Suits'' (2024, 7, 1) (Some 5) example_orders_db
     = (None, example_orders_db\<lparr>orders := orders example_orders_db @
                 [new_order 2 ''ORD-2'' ''Beta Ltd'' ''Suits'' (2024, 7, 1) 5],
               orders_seq := 2\<rparr>)"
  using data_entry_create [of "''ORD-1''" example_orders_db NoFault "''Beta Ltd''" "''Suits''"
      "(2024, 7, 1)" "Some 5"]
    data_entry_create [of "''ORD-2''" example_orders_db NoFault "''Beta Ltd''" "''Suits''"
      "(2024, 7, 1)" "Some 5"]
  by (simp add: example_orders_db_def data_entry_cases empty_db_def new_order_def)

text \<open>
  No path of the code fails on a quantity below 1: the \<^verbatim>\<open>INSERT\<close> takes any quantity
  (the table declares no constraint on the column), and a form submitted with 0 entered
  adds an order with quantity 1 without reporting anything.
\<close>

theorem create_quantity_counterexample:
  "insert_order ''ORD-1'' ''Acme Corp'' ''Tops'' (2024, 6, 1) 0 empty_db
     = Inr (empty_db\<lparr>orders := [new_order 1 ''ORD-1'' ''Acme Corp'' ''Tops'' (2024, 6, 1) 0],
                     orders_seq := 1\<rparr>) \<and>
   data_entry NoFault ''ORD-1'' ''Acme Corp'' ''Tops'' (2024, 6, 1) (Some 0) empty_db
     = (None, empty_db\<lparr>orders := [new_order 1 ''ORD-1'' ''Acme Corp'' ''Tops'' (2024, 6, 1) 1],
                       orders_seq := 1\<rparr>)"
  by (simp add: insert_order_def data_entry_cases empty_db_def)




end
